theory Spec2Isabelle
  imports Main "HOL-Library.Multiset" "HOL-Library.Sublist"
begin

section \<open>JavaScript strings\<close>

text \<open>
  A JavaScript string is modelled as a \<^typ>\<open>string\<close>: one \<^typ>\<open>char\<close> per code unit,
  for the code units below 256. The fields \<open>description\<close>, \<open>homepage\<close> and \<open>language\<close>
  of a repository, which the hosting service may deliver as \<open>null\<close>, are only ever tested
  for truthiness (\<open>x || d\<close>, \<open>x && y\<close>); the falsy values of such a field are all
  modelled as the empty string. The fields \<open>name\<close>, \<open>html_url\<close> and \<open>topics\<close>, on which the
  program calls methods, are present, as interface \<open>GitHubRepo\<close> declares them.
\<close>

definition or_else :: "string \<Rightarrow> string \<Rightarrow> string" where
  \<comment> \<open>\<open>a || b\<close> on strings\<close>
  "or_else a b = (if a = [] then b else a)"

fun startsWith :: "string \<Rightarrow> string \<Rightarrow> bool" where
  "startsWith s [] = True"
| "startsWith [] (p # ps) = False"
| "startsWith (c # cs) (p # ps) = (c = p \<and> startsWith cs ps)"

fun includes_str :: "string \<Rightarrow> string \<Rightarrow> bool" where
  \<comment> \<open>\<open>s.includes(pat)\<close>: \<open>pat\<close> occurs in \<open>s\<close> at some position\<close>
  "includes_str [] pat = (pat = [])"
| "includes_str (c # cs) pat = (startsWith (c # cs) pat \<or> includes_str cs pat)"

fun replace_str :: "string \<Rightarrow> string \<Rightarrow> string \<Rightarrow> string" where
  \<comment> \<open>\<open>s.replace(pat, rep)\<close> with a string pattern: the first occurrence only
      (\<open>rep\<close> without \<open>$\<close> patterns)\<close>
  "replace_str [] pat rep = (if pat = [] then rep else [])"
| "replace_str (c # cs) pat rep =
     (if startsWith (c # cs) pat then rep @ drop (length pat) (c # cs)
      else c # replace_str cs pat rep)"

fun split_str :: "char \<Rightarrow> string \<Rightarrow> string list" where
  \<comment> \<open>\<open>s.split(d)\<close> for a one-character separator\<close>
  "split_str d [] = [[]]"
| "split_str d (c # cs) =
     (if c = d then [] # split_str d cs
      else (case split_str d cs of
              [] \<Rightarrow> [[c]]
            | w # ws \<Rightarrow> (c # w) # ws))"

fun join_str :: "string \<Rightarrow> string list \<Rightarrow> string" where
  \<comment> \<open>\<open>ws.join(sep)\<close>\<close>
  "join_str sep [] = []"
| "join_str sep [w] = w"
| "join_str sep (w # v # ws) = w @ sep @ join_str sep (v # ws)"

definition toUpperCase_char :: "char \<Rightarrow> char" where
  \<comment> \<open>upper-casing of one code unit, for the letters \<open>a\<close> to \<open>z\<close> (repository names
      are ASCII); any other character is kept\<close>
  "toUpperCase_char c =
     (case map_of (zip ''abcdefghijklmnopqrstuvwxyz'' ''ABCDEFGHIJKLMNOPQRSTUVWXYZ'') c of
        None \<Rightarrow> c
      | Some u \<Rightarrow> u)"

definition capitalize :: "string \<Rightarrow> string" where
  \<comment> \<open>\<open>word.charAt(0).toUpperCase() + word.slice(1)\<close>\<close>
  "capitalize word = map toUpperCase_char (take 1 word) @ drop 1 word"

definition isWhiteSpace :: "char \<Rightarrow> bool" where
  \<comment> \<open>the white space and line terminator code units below 256 that \<open>trim\<close> strips:
      TAB, LF, VT, FF, CR, SPACE, NBSP\<close>
  "isWhiteSpace c = ((of_char c :: nat) \<in> {9, 10, 11, 12, 13, 32, 160})"

definition trim :: "string \<Rightarrow> string" where
  "trim s = rev (dropWhile isWhiteSpace (rev (dropWhile isWhiteSpace s)))"

section \<open>Project gallery (component \<open>Projects\<close>)\<close>

text \<open>
  Interface \<open>GitHubRepo\<close>. The fields \<open>description\<close> and \<open>language\<close> occur in both
  interfaces of the source; the card's copies are \<open>card_description\<close> and
  \<open>card_language\<close> here, and the card's \<open>image\<close> is \<open>image_url\<close>.
\<close>

record GitHubRepo =
  name :: string
  description :: string
  html_url :: string
  homepage :: string
  topics :: "string list"
  stargazers_count :: nat
  language :: string
  updated_at :: string

record Project =
  title :: string
  category :: string
  card_description :: string
  image_url :: string
  tags :: "string list"
  link :: string
  github :: string
  stars :: nat
  card_language :: string
  updated :: string

record projects_state =
  projects :: "Project list"
  loading :: bool
  error :: string

definition Projects_init :: projects_state where
  "Projects_init = \<lparr>projects = [], loading = True, error = []\<rparr>"

text \<open>What \<open>fetch\<close> and \<open>response.json()\<close> deliver: the request is rejected, or there is
  a response with its \<open>ok\<close> flag and a body that parses to a repository array or not.\<close>

datatype fetch_outcome =
  FetchRejected
| Response bool "GitHubRepo list option"

definition validRepos :: "GitHubRepo list \<Rightarrow> GitHubRepo list" where
  "validRepos repos =
     filter (\<lambda>repo. \<not> includes_str (name repo) ''ChristTech'' \<and> description repo \<noteq> []) repos"

definition toProject :: "(string \<Rightarrow> string) \<Rightarrow> GitHubRepo \<Rightarrow> Project" where
  \<comment> \<open>the arrow function given to \<open>map\<close>; \<open>toLocaleDateString\<close> is the host's rendering
      of a timestamp in the user's locale\<close>
  "toProject toLocaleDateString repo =
     \<lparr>title = join_str '' '' (map capitalize (split_str (CHR ''-'') (name repo))),
      category = or_else (language repo) ''Open Source'',
      card_description =
        or_else (description repo) ''An innovative project showcasing technical excellence.'',
      image_url = ''https://opengraph.githubassets.com/1/''
                    @ replace_str (html_url repo) ''https://github.com/'' [],
      tags = (if length (topics repo) > 0 then take 4 (topics repo)
              else [or_else (language repo) ''Code'']),
      link = or_else (homepage repo) (html_url repo),
      github = html_url repo,
      stars = stargazers_count repo,
      card_language = language repo,
      updated = toLocaleDateString (updated_at repo)\<rparr>"

text \<open>
  \<open>validRepos.sort(() => Math.random() - 0.5)\<close> runs the engine's sort with a comparator
  that answers at random. Which arrangement comes out depends on the engine and on the
  random draws, so the sort is a parameter \<open>sort_impl\<close> of the model. The theorems assume
  of it only that it rearranges its argument: \<open>mset (sort_impl xs) = mset xs\<close>, which
  holds of a sort whatever its comparator answers.
\<close>

definition mappedProjects ::
  "(GitHubRepo list \<Rightarrow> GitHubRepo list) \<Rightarrow> (string \<Rightarrow> string) \<Rightarrow> GitHubRepo list \<Rightarrow> Project list"
where
  "mappedProjects sort_impl toLocaleDateString repos =
     (let shuffled = sort_impl (validRepos repos)
      in map (toProject toLocaleDateString) (take 6 shuffled))"

definition load_failed :: "projects_state \<Rightarrow> projects_state" where
  \<comment> \<open>the \<open>catch\<close> block\<close>
  "load_failed st = st\<lparr>error := ''Unable to load projects'', loading := False\<rparr>"

fun fetchGitHubProjects ::
  "(GitHubRepo list \<Rightarrow> GitHubRepo list) \<Rightarrow> (string \<Rightarrow> string) \<Rightarrow> fetch_outcome
     \<Rightarrow> projects_state \<Rightarrow> projects_state"
where
  "fetchGitHubProjects sort_impl fmt FetchRejected st = load_failed st"
| "fetchGitHubProjects sort_impl fmt (Response ok body) st =
     (if \<not> ok then load_failed st
      else (case body of
              None \<Rightarrow> load_failed st
            | Some repos \<Rightarrow>
                st\<lparr>projects := mappedProjects sort_impl fmt repos, loading := False\<rparr>))"

definition qualifying :: "GitHubRepo \<Rightarrow> bool" where
  \<comment> \<open>the specification's wording of a qualifying repository: its description is
      non-empty and its name does not contain the account handle\<close>
  "qualifying r = (description r \<noteq> [] \<and> \<not> includes_str (name r) ''ChristTech'')"

section \<open>Assistant chat (component \<open>AIChat\<close>)\<close>

datatype role = User | AI

record Message =
  role :: role
  msg_text :: string

record chat_state =
  isOpen :: bool
  messages :: "Message list"
  input :: string
  isTyping :: bool

definition seed_message :: Message where
  "seed_message =
     \<lparr>role = AI,
      msg_text = ''Hi! I'' @ [CHR 0x27] @ ''m CHRISTTech'' @ [CHR 0x27]
        @ ''s AI assistant. Ask me anything about machine learning, robotics projects, or tech stack!''\<rparr>"

definition glitch_text :: string where
  "glitch_text = ''I'' @ [CHR 0x27] @ ''m having a little glitch. Can you try again?''"

definition fallback_text :: string where
  "fallback_text = ''Connection issues. Alex must be coding something big!''"

definition AIChat_init :: chat_state where
  "AIChat_init = \<lparr>isOpen = False, messages = [seed_message], input = [], isTyping = False\<rparr>"

text \<open>
  What the generation call delivers once a request has been issued:
  \<open>generateContent\<close> rejects (network or HTTP error), or it resolves and
  \<open>result.response.text()\<close> throws (a malformed or blocked response), or the text is
  returned.
\<close>

datatype gen_outcome =
  GenerateRejects
| TextThrows
| Text string

datatype chat_error =
  ApiKeyMissing
| GenerationFailed
| ResponseUnreadable

text \<open>What a run of \<open>handleSend\<close> leaves behind: the component state, the prompts given
  to \<open>generateContent\<close>, and the errors written to the console.\<close>

record send_result =
  state :: chat_state
  requests :: "string list"
  console :: "chat_error list"

definition falsy :: "string option \<Rightarrow> bool" where
  \<comment> \<open>\<open>!apiKey\<close> for an environment entry: undefined or the empty string\<close>
  "falsy v = (case v of None \<Rightarrow> True | Some s \<Rightarrow> s = [])"

definition push :: "Message \<Rightarrow> chat_state \<Rightarrow> chat_state" where
  \<comment> \<open>\<open>setMessages(prev => [...prev, m])\<close>\<close>
  "push m st = st\<lparr>messages := messages st @ [m]\<rparr>"

definition handleSend_catch :: "chat_state \<Rightarrow> chat_state" where
  \<comment> \<open>the \<open>catch\<close> block followed by \<open>finally\<close>\<close>
  "handleSend_catch st =
     (push \<lparr>role = AI, msg_text = fallback_text\<rparr> st)\<lparr>isTyping := False\<rparr>"

fun handleSend_resume :: "gen_outcome \<Rightarrow> chat_state \<Rightarrow> chat_state \<times> chat_error list" where
  \<comment> \<open>the rest of \<open>handleSend\<close> from \<open>await model.generateContent(userMsg)\<close> on, run on
      the state of the moment the call settles\<close>
  "handleSend_resume GenerateRejects st = (handleSend_catch st, [GenerationFailed])"
| "handleSend_resume TextThrows st = (handleSend_catch st, [ResponseUnreadable])"
| "handleSend_resume (Text t) st =
     (let aiResponse = or_else t glitch_text
      in ((push \<lparr>role = AI, msg_text = aiResponse\<rparr> st)\<lparr>isTyping := False\<rparr>, []))"

datatype progress =
  Returned
| Awaiting string

definition handleSend_sync ::
  "string option \<Rightarrow> chat_state \<Rightarrow> chat_state \<times> progress \<times> chat_error list"
where
  \<comment> \<open>\<open>handleSend\<close> up to its first \<open>await\<close>, or to its end where it does not get
      there; \<open>apiKey\<close> is \<open>process.env.API_KEY\<close>\<close>
  "handleSend_sync apiKey st =
     (if trim (input st) = [] \<or> isTyping st then (st, Returned, [])
      else
        let userMsg = trim (input st);
            st1 = st\<lparr>input := []\<rparr>;
            st2 = push \<lparr>role = User, msg_text = userMsg\<rparr> st1;
            st3 = st2\<lparr>isTyping := True\<rparr>
        in if falsy apiKey then (handleSend_catch st3, Returned, [ApiKeyMissing])
           else (st3, Awaiting userMsg, []))"

definition handleSend :: "string option \<Rightarrow> gen_outcome \<Rightarrow> chat_state \<Rightarrow> send_result" where
  \<comment> \<open>a whole run of \<open>handleSend\<close>, the call settling with \<open>outcome\<close>\<close>
  "handleSend apiKey outcome st =
     (case handleSend_sync apiKey st of
        (st', Returned, errs) \<Rightarrow> \<lparr>state = st', requests = [], console = errs\<rparr>
      | (st', Awaiting prompt, errs) \<Rightarrow>
          (case handleSend_resume outcome st' of
             (st'', errs') \<Rightarrow> \<lparr>state = st'', requests = [prompt], console = errs @ errs'\<rparr>))"

text \<open>The events of the widget: the two buttons that open and close it, typing into the
  input, a submit (the Enter key or the send button), and the settling of the request in
  flight, which exists exactly while \<open>isTyping\<close> holds.\<close>

datatype chat_event =
  Toggle
| Close
| Change string
| Submit
| Settle gen_outcome

fun chat_step :: "string option \<Rightarrow> chat_state \<Rightarrow> chat_event \<Rightarrow> chat_state" where
  "chat_step apiKey st Toggle = st\<lparr>isOpen := \<not> isOpen st\<rparr>"
| "chat_step apiKey st Close = st\<lparr>isOpen := False\<rparr>"
| "chat_step apiKey st (Change v) = st\<lparr>input := v\<rparr>"
| "chat_step apiKey st Submit = fst (handleSend_sync apiKey st)"
| "chat_step apiKey st (Settle outcome) =
     (if isTyping st then fst (handleSend_resume outcome st) else st)"

definition chat_run :: "string option \<Rightarrow> chat_event list \<Rightarrow> chat_state" where
  "chat_run apiKey events = foldl (chat_step apiKey) AIChat_init events"

section \<open>Contact form (component \<open>Contact\<close>)\<close>

datatype form_state = Idle | Loading | Success | Error

record form_fields =
  field_name :: string
  field_email :: string
  field_message :: string

definition blank_fields :: form_fields where
  \<comment> \<open>the form after \<open>reset()\<close>: no input of the form has a default value\<close>
  "blank_fields = \<lparr>field_name = [], field_email = [], field_message = []\<rparr>"

text \<open>\<open>formRef\<close> is the form element with the values of its fields, \<open>None\<close> while the
  form is not mounted.\<close>

record contact_state =
  formState :: form_state
  errorMessage :: string
  formRef :: "form_fields option"

definition Contact_init :: contact_state where
  "Contact_init = \<lparr>formState = Idle, errorMessage = [], formRef = Some blank_fields\<rparr>"

definition formData :: "string option \<Rightarrow> form_fields \<Rightarrow> (string \<times> string) list" where
  \<comment> \<open>the body of the POST: the fields of the form, then the three appended entries;
      \<open>key\<close> is \<open>import.meta.env.VITE_WEB3FORMS_KEY\<close>\<close>
  "formData key target =
     [(''name'', field_name target),
      (''email'', field_email target),
      (''message'', field_message target),
      (''access_key'', (case key of None \<Rightarrow> ''YOUR_ACCESS_KEY_HERE''
                        | Some k \<Rightarrow> or_else k ''YOUR_ACCESS_KEY_HERE'')),
      (''subject'', ''New Contact Form Submission from CHRISTTech Portfolio''),
      (''from_name'', ''CHRISTTech Portfolio'')]"

text \<open>What the relay call delivers: \<open>fetch\<close> rejects, or the body cannot be read
  (\<open>response.json()\<close> rejects, or reading \<open>data.success\<close> throws), or the body is an
  object with a \<open>success\<close> flag and possibly a \<open>message\<close>.\<close>

datatype relay_outcome =
  FetchFails
| JsonFails
| Reply bool "string option"

definition network_error_text :: string where
  "network_error_text = ''Network error. Please check your connection and try again.''"

definition generic_error_text :: string where
  "generic_error_text = ''Something went wrong. Please try again.''"

definition handleSubmit_begin :: "contact_state \<Rightarrow> contact_state" where
  "handleSubmit_begin st = st\<lparr>formState := Loading, errorMessage := []\<rparr>"

fun handleSubmit_settle :: "relay_outcome \<Rightarrow> contact_state \<Rightarrow> contact_state" where
  "handleSubmit_settle (Reply success message) st =
     (if success
      then (let st1 = st\<lparr>formState := Success\<rparr>
            in (case formRef st1 of
                  None \<Rightarrow> st1
                | Some form \<Rightarrow> st1\<lparr>formRef := Some blank_fields\<rparr>))
      else st\<lparr>formState := Error,
              errorMessage := or_else (case message of None \<Rightarrow> [] | Some m \<Rightarrow> m)
                                generic_error_text\<rparr>)"
| "handleSubmit_settle failure st =
     st\<lparr>formState := Error, errorMessage := network_error_text\<rparr>"

definition handleSubmit :: "relay_outcome \<Rightarrow> contact_state \<Rightarrow> contact_state" where
  "handleSubmit outcome st = handleSubmit_settle outcome (handleSubmit_begin st)"

section \<open>Example data\<close>

definition repo :: "string \<Rightarrow> string \<Rightarrow> string list \<Rightarrow> GitHubRepo" where
  \<comment> \<open>a repository of the account as the hosting service lists it, with no homepage,
      no language and no stars\<close>
  "repo n d ts =
     \<lparr>name = n, description = d, html_url = ''https://github.com/ChristTech/'' @ n,
      homepage = [], topics = ts, stargazers_count = 0, language = [],
      updated_at = ''2025-01-01T00:00:00Z''\<rparr>"

definition scenario_batch :: "GitHubRepo list" where
  "scenario_batch =
     [repo ''ChristTech'' ''profile'' [],
      repo ''robo-arm'' [] [],
      repo ''vision-app'' ''CV pipeline'' [''cv'', ''python'']]"

definition seven_batch :: "GitHubRepo list" where
  "seven_batch =
     [repo ''a1'' ''one'' [], repo ''a2'' ''two'' [], repo ''ChristTech'' ''profile'' [],
      repo ''a3'' ''three'' [], repo ''a4'' ''four'' [], repo ''a5'' ''five'' [],
      repo ''a6'' [] [], repo ''a7'' ''seven'' [], repo ''a8'' ''eight'' []]"

definition small_batch :: "GitHubRepo list" where
  "small_batch =
     [repo ''robo-arm'' ''Arm controller'' [],
      repo ''ChristTech'' ''profile'' [],
      repo ''notes'' [] [],
      repo ''vision-app'' ''CV pipeline'' [''cv'', ''python'']]"

definition typed :: "string \<Rightarrow> chat_state" where
  \<comment> \<open>the fresh widget after the user has typed \<open>s\<close>\<close>
  "typed s = chat_step None AIChat_init (Change s)"

definition filled_form :: contact_state where
  "filled_form =
     Contact_init\<lparr>formRef := Some \<lparr>field_name = ''Ada'', field_email = ''ada@example.org'',
                                    field_message = ''Hello''\<rparr>\<rparr>"

definition pending_chat :: chat_state where
  \<comment> \<open>a question has been submitted and is in flight; the user has typed again\<close>
  "pending_chat =
     chat_step (Some ''key'') (chat_step (Some ''key'') (typed ''What is ROS?'') Submit)
       (Change ''And PyTorch?'')"

section \<open>Properties of the gallery\<close>

text \<open>The source's filter keeps exactly the qualifying repositories.\<close>

lemma validRepos_qualifying: "validRepos repos = filter qualifying repos"
  unfolding validRepos_def by (rule filter_cong) (auto simp: qualifying_def)

text \<open>
  Claim C1. Let the engine's sort rearrange its argument. Then the cards of a loaded
  batch are cards of qualifying repositories, each repository used at most as often as
  the batch lists it; the gallery, loaded or failed, never holds more than six cards; and
  when more than six repositories of the batch qualify, it holds exactly six.
\<close>
theorem gallery_selection:
  assumes perm: "\<And>xs. mset (sort_impl xs) = mset xs"
  shows "mset (projects (fetchGitHubProjects sort_impl fmt (Response True (Some repos)) st))
           \<subseteq># image_mset (toProject fmt) (mset (filter qualifying repos))
         \<and> length (projects (fetchGitHubProjects sort_impl fmt outcome Projects_init)) \<le> 6
         \<and> (6 < length (filter qualifying repos) \<longrightarrow>
              length (projects (fetchGitHubProjects sort_impl fmt (Response True (Some repos)) st)) = 6)"
proof -
  let ?valid = "filter qualifying repos"
  let ?shuffled = "sort_impl ?valid"
  have cards: "projects (fetchGitHubProjects sort_impl fmt (Response True (Some repos)) st)
                 = map (toProject fmt) (take 6 ?shuffled)"
    by (simp add: mappedProjects_def validRepos_qualifying)
  have "mset (take 6 ?shuffled) \<subseteq># mset ?shuffled"
    by (metis append_take_drop_id mset_append mset_subset_eq_add_left)
  then have sub: "mset (take 6 ?shuffled) \<subseteq># mset ?valid"
    by (simp add: perm)
  have len: "length ?shuffled = length ?valid"
    by (metis perm size_mset)
  have one: "mset (map (toProject fmt) (take 6 ?shuffled))
               \<subseteq># image_mset (toProject fmt) (mset ?valid)"
    using image_mset_subseteq_mono [OF sub, of "toProject fmt"] by simp
  have two: "length (projects (fetchGitHubProjects sort_impl fmt outcome Projects_init)) \<le> 6"
    by (cases outcome) (auto simp: load_failed_def Projects_init_def mappedProjects_def split: option.splits)
  have three: "6 < length ?valid \<longrightarrow> length (map (toProject fmt) (take 6 ?shuffled)) = 6"
    using len by simp
  show ?thesis using one two three by (simp only: cards) 
qed

lemma loaded_projects:
  "projects (fetchGitHubProjects sort_impl fmt (Response True (Some repos)) st)
     = map (toProject fmt) (take 6 (sort_impl (filter qualifying repos)))"
  by (simp add: mappedProjects_def validRepos_qualifying)

lemma qualifying_seven: "length (filter qualifying seven_batch) = 7"
  by (simp add: seven_batch_def repo_def qualifying_def)

text \<open>Claim C1 at a batch of nine repositories of which seven qualify, the sort
  reversing its argument.\<close>
theorem gallery_selection_witness:
  "6 < length (filter qualifying seven_batch)
   \<and> length (projects (fetchGitHubProjects rev id (Response True (Some seven_batch)) Projects_init)) = 6
   \<and> mset (projects (fetchGitHubProjects rev id (Response True (Some seven_batch)) Projects_init))
        \<subseteq># image_mset (toProject id) (mset (filter qualifying seven_batch))"
proof -
  have perm: "\<And>xs :: GitHubRepo list. mset (rev xs) = mset xs" by simp
  have more: "6 < length (filter qualifying seven_batch)" by (simp add: qualifying_seven)
  show ?thesis
    using gallery_selection [of rev id seven_batch Projects_init FetchRejected, OF perm] more
    by blast
qed

text \<open>
  Claim C9. Let the engine's sort rearrange its argument. When at most six repositories
  of the batch qualify, a successful load produces one card for each of them and no
  other: as many cards as qualifying repositories, and the same cards up to order.
\<close>
theorem gallery_below_cap:
  assumes perm: "\<And>xs. mset (sort_impl xs) = mset xs"
    and few: "length (filter qualifying repos) \<le> 6"
  shows "mset (projects (fetchGitHubProjects sort_impl fmt (Response True (Some repos)) st))
           = image_mset (toProject fmt) (mset (filter qualifying repos))
         \<and> length (projects (fetchGitHubProjects sort_impl fmt (Response True (Some repos)) st))
           = length (filter qualifying repos)"
proof -
  let ?shuffled = "sort_impl (filter qualifying repos)"
  have len: "length ?shuffled = length (filter qualifying repos)"
    by (metis perm size_mset)
  then have all: "take 6 ?shuffled = ?shuffled"
    using few by simp
  have "mset (map (toProject fmt) ?shuffled)
          = image_mset (toProject fmt) (mset (filter qualifying repos))"
    by (simp add: perm)
  then show ?thesis
    unfolding loaded_projects all by (simp add: len)
qed

lemma qualifying_small: "filter qualifying small_batch = [repo ''robo-arm'' ''Arm controller'' [], repo ''vision-app'' ''CV pipeline'' [''cv'', ''python'']]"
  by (simp add: small_batch_def repo_def qualifying_def)

text \<open>Claim C9 at a batch of four repositories of which two qualify.\<close>
theorem gallery_below_cap_witness:
  "length (filter qualifying small_batch) \<le> 6
   \<and> length (projects (fetchGitHubProjects rev id (Response True (Some small_batch)) Projects_init)) = 2
   \<and> mset (projects (fetchGitHubProjects rev id (Response True (Some small_batch)) Projects_init))
        = image_mset (toProject id) (mset (filter qualifying small_batch))"
proof -
  have perm: "\<And>xs :: GitHubRepo list. mset (rev xs) = mset xs" by simp
  have few: "length (filter qualifying small_batch) \<le> 6" by (simp add: qualifying_small)
  show ?thesis
    using gallery_below_cap [of rev small_batch id Projects_init, OF perm few] few
    by (simp add: qualifying_small)
qed

text \<open>
  Claim C5 states that the batch of the profile repository, \<open>robo-arm\<close> without a
  description and \<open>vision-app\<close> with the description \<open>CV pipeline\<close> yields no card. The
  third repository passes the filter: its name does not contain the handle and its
  description is not empty. The gallery is not empty.
\<close>
theorem scenario_zero_cards_counterexample:
  "projects (fetchGitHubProjects rev id (Response True (Some scenario_batch)) Projects_init) \<noteq> []"
  by (simp add: mappedProjects_def validRepos_def scenario_batch_def repo_def)

text \<open>
  Claim C5, amended. Whatever the remaining fields of the three repositories are, the
  loader produces exactly one card, the card of \<open>vision-app\<close>, titled \<open>Vision App\<close>, with
  the description \<open>CV pipeline\<close> and the tags \<open>cv\<close> and \<open>python\<close>.
\<close>
theorem scenario_one_card:
  assumes perm: "\<And>xs. mset (sort_impl xs) = mset xs"
    and r1: "name r1 = ''ChristTech''" "description r1 = ''profile''"
    and r2: "name r2 = ''robo-arm''" "description r2 = []"
    and r3: "name r3 = ''vision-app''" "description r3 = ''CV pipeline''"
            "topics r3 = [''cv'', ''python'']"
  shows "projects (fetchGitHubProjects sort_impl fmt (Response True (Some [r1, r2, r3])) st)
           = [toProject fmt r3]
         \<and> title (toProject fmt r3) = ''Vision App''
         \<and> card_description (toProject fmt r3) = ''CV pipeline''
         \<and> tags (toProject fmt r3) = [''cv'', ''python'']"
proof -
  have valid: "filter qualifying [r1, r2, r3] = [r3]"
    by (simp add: qualifying_def r1 r2 r3)
  have "mset (sort_impl [r3]) = {#r3#}" by (simp add: perm)
  then have "sort_impl [r3] = [r3]" by (simp only: mset_single_iff)
  then have cards: "projects (fetchGitHubProjects sort_impl fmt (Response True (Some [r1, r2, r3])) st)
           = [toProject fmt r3]"
    unfolding loaded_projects valid by simp
  have t: "title (toProject fmt r3) = ''Vision App''"
    by (simp add: toProject_def r3 capitalize_def toUpperCase_char_def)
  have d: "card_description (toProject fmt r3) = ''CV pipeline''"
    by (simp add: toProject_def r3 or_else_def)
  have g: "tags (toProject fmt r3) = [''cv'', ''python'']"
    by (simp add: toProject_def r3)
  show ?thesis using cards t d g by simp
qed

text \<open>Claim C5, amended, at the batch \<open>scenario_batch\<close>.\<close>
theorem scenario_one_card_witness:
  "projects (fetchGitHubProjects rev id (Response True (Some scenario_batch)) Projects_init)
     = [toProject id (repo ''vision-app'' ''CV pipeline'' [''cv'', ''python''])]
   \<and> tags (toProject id (repo ''vision-app'' ''CV pipeline'' [''cv'', ''python''])) = [''cv'', ''python'']"
proof -
  have perm: "\<And>xs :: GitHubRepo list. mset (rev xs) = mset xs" by simp
  show ?thesis
    unfolding scenario_batch_def
    using scenario_one_card [of rev "repo ''ChristTech'' ''profile'' []" "repo ''robo-arm'' [] []"
        "repo ''vision-app'' ''CV pipeline'' [''cv'', ''python'']" id Projects_init, OF perm]
    by (simp add: repo_def)
qed

text \<open>
  Claim C6. The image address of a card is the social-preview prefix followed by the
  repository's canonical address without its first \<open>https://github.com/\<close>, so two
  repositories with the same canonical address have the same image address, whatever
  their other fields; the link is the homepage when there is one and the canonical
  address otherwise; the tags are the first four topics when there are topics, and
  otherwise the language alone, or \<open>Code\<close> when there is no language.
\<close>
theorem card_fields:
  "(html_url a = html_url b \<longrightarrow> image_url (toProject fmt a) = image_url (toProject fmt' b))
   \<and> image_url (toProject fmt r)
       = ''https://opengraph.githubassets.com/1/'' @ replace_str (html_url r) ''https://github.com/'' []
   \<and> link (toProject fmt r) = (if homepage r \<noteq> [] then homepage r else html_url r)
   \<and> tags (toProject fmt r)
       = (if topics r \<noteq> [] then take 4 (topics r)
          else [if language r \<noteq> [] then language r else ''Code''])"
  by (simp add: toProject_def or_else_def)

text \<open>Claim C6 at two repositories with one canonical address and different
  descriptions and topics.\<close>
theorem card_fields_witness:
  "html_url (repo ''vision-app'' ''CV pipeline'' [''cv'', ''python''])
     = html_url (repo ''vision-app'' ''Another text'' [])
   \<and> image_url (toProject id (repo ''vision-app'' ''CV pipeline'' [''cv'', ''python'']))
     = image_url (toProject rev (repo ''vision-app'' ''Another text'' []))
   \<and> image_url (toProject id (repo ''vision-app'' ''CV pipeline'' [''cv'', ''python'']))
     = ''https://opengraph.githubassets.com/1/ChristTech/vision-app''"
proof -
  have same: "html_url (repo ''vision-app'' ''CV pipeline'' [''cv'', ''python''])
     = html_url (repo ''vision-app'' ''Another text'' [])"
    by (simp add: repo_def)
  have img: "image_url (toProject id (repo ''vision-app'' ''CV pipeline'' [''cv'', ''python'']))
     = ''https://opengraph.githubassets.com/1/ChristTech/vision-app''"
    by (simp add: toProject_def repo_def)
  show ?thesis
    using card_fields [of "repo ''vision-app'' ''CV pipeline'' [''cv'', ''python'']"
        "repo ''vision-app'' ''Another text'' []" id rev] same img
    by blast
qed

section \<open>Properties of the chat\<close>

text \<open>\<open>trim\<close> yields the empty string exactly on the strings of white space.\<close>

lemma dropWhile_all_Nil:
  assumes "\<forall>c\<in>set (dropWhile P xs). P c"
  shows "dropWhile P xs = []"
proof (rule ccontr)
  assume ne: "dropWhile P xs \<noteq> []"
  then have "\<not> P (hd (dropWhile P xs))" by (rule hd_dropWhile)
  moreover have "hd (dropWhile P xs) \<in> set (dropWhile P xs)"
    using ne by (rule hd_in_set)
  ultimately show False using assms by blast
qed

lemma trim_Nil_iff: "trim s = [] \<longleftrightarrow> (\<forall>c\<in>set s. isWhiteSpace c)"
proof
  assume "trim s = []"
  then have "dropWhile isWhiteSpace (rev (dropWhile isWhiteSpace s)) = []"
    unfolding trim_def by (simp only: rev_is_Nil_conv)
  then have "\<forall>c\<in>set (rev (dropWhile isWhiteSpace s)). isWhiteSpace c"
    by (simp only: dropWhile_eq_Nil_conv)
  then have "\<forall>c\<in>set (dropWhile isWhiteSpace s). isWhiteSpace c"
    by (simp only: set_rev)
  then have "dropWhile isWhiteSpace s = []" by (rule dropWhile_all_Nil)
  then show "\<forall>c\<in>set s. isWhiteSpace c" by (simp only: dropWhile_eq_Nil_conv)
next
  assume "\<forall>c\<in>set s. isWhiteSpace c"
  then have d: "dropWhile isWhiteSpace s = []" by (simp only: dropWhile_eq_Nil_conv)
  show "trim s = []" unfolding trim_def d by simp
qed

lemma messages_catch [simp]:
  "messages (handleSend_catch st) = messages st @ [\<lparr>role = AI, msg_text = fallback_text\<rparr>]"
  by (simp add: handleSend_catch_def push_def)

lemma isTyping_catch [simp]: "isTyping (handleSend_catch st) = False"
  by (simp add: handleSend_catch_def)

lemma input_catch [simp]: "input (handleSend_catch st) = input st"
  by (simp add: handleSend_catch_def push_def)

lemma messages_resume:
  "messages (fst (handleSend_resume outcome st))
     = messages st @ [\<lparr>role = AI, msg_text =
         (case outcome of Text t \<Rightarrow> (if t = [] then glitch_text else t) | _ \<Rightarrow> fallback_text)\<rparr>]"
  by (cases outcome) (simp_all add: push_def or_else_def)

lemma isTyping_resume: "isTyping (fst (handleSend_resume outcome st)) = False"
  by (cases outcome) (simp_all add: push_def)

lemma input_resume: "input (fst (handleSend_resume outcome st)) = input st"
  by (cases outcome) (simp_all add: push_def)

lemma sync_rejected:
  "trim (input st) = [] \<or> isTyping st \<Longrightarrow> handleSend_sync apiKey st = (st, Returned, [])"
  by (simp add: handleSend_sync_def)

lemma sync_no_key:
  assumes "trim (input st) \<noteq> []" "\<not> isTyping st" "falsy apiKey"
  shows "handleSend_sync apiKey st =
           (handleSend_catch
              ((push \<lparr>role = User, msg_text = trim (input st)\<rparr> (st\<lparr>input := []\<rparr>))\<lparr>isTyping := True\<rparr>),
            Returned, [ApiKeyMissing])"
  using assms by (simp add: handleSend_sync_def Let_def)

lemma sync_issued:
  assumes "trim (input st) \<noteq> []" "\<not> isTyping st" "\<not> falsy apiKey"
  shows "handleSend_sync apiKey st =
           ((push \<lparr>role = User, msg_text = trim (input st)\<rparr> (st\<lparr>input := []\<rparr>))\<lparr>isTyping := True\<rparr>,
            Awaiting (trim (input st)), [])"
  using assms by (simp add: handleSend_sync_def Let_def)

lemma send_no_key:
  assumes "trim (input st) \<noteq> []" "\<not> isTyping st" "falsy apiKey"
  shows "handleSend apiKey outcome st =
           \<lparr>state = handleSend_catch
              ((push \<lparr>role = User, msg_text = trim (input st)\<rparr> (st\<lparr>input := []\<rparr>))\<lparr>isTyping := True\<rparr>),
            requests = [], console = [ApiKeyMissing]\<rparr>"
  by (simp add: handleSend_def sync_no_key [OF assms])

lemma send_issued:
  assumes "trim (input st) \<noteq> []" "\<not> isTyping st" "\<not> falsy apiKey"
  shows "handleSend apiKey outcome st =
           \<lparr>state = fst (handleSend_resume outcome
              ((push \<lparr>role = User, msg_text = trim (input st)\<rparr> (st\<lparr>input := []\<rparr>))\<lparr>isTyping := True\<rparr>)),
            requests = [trim (input st)],
            console = snd (handleSend_resume outcome
              ((push \<lparr>role = User, msg_text = trim (input st)\<rparr> (st\<lparr>input := []\<rparr>))\<lparr>isTyping := True\<rparr>))\<rparr>"
  by (simp add: handleSend_def sync_issued [OF assms] case_prod_beta)

lemma messages_send:
  assumes "trim (input st) \<noteq> []" "\<not> isTyping st"
  shows "messages (state (handleSend apiKey outcome st))
     = messages st @ [\<lparr>role = User, msg_text = trim (input st)\<rparr>,
         \<lparr>role = AI, msg_text =
           (if falsy apiKey then fallback_text
            else case outcome of Text t \<Rightarrow> (if t = [] then glitch_text else t)
                 | _ \<Rightarrow> fallback_text)\<rparr>]"
proof (cases "falsy apiKey")
  case True
  show ?thesis
    by (simp add: send_no_key [OF assms True] True push_def)
next
  case False
  show ?thesis
    by (simp add: send_issued [OF assms False] False messages_resume push_def)
qed

lemma send_rejected:
  "trim (input st) = [] \<or> isTyping st \<Longrightarrow>
     handleSend apiKey outcome st = \<lparr>state = st, requests = [], console = []\<rparr>"
  by (simp add: handleSend_def sync_rejected)

lemma isTyping_send:
  assumes "trim (input st) \<noteq> []" "\<not> isTyping st"
  shows "isTyping (state (handleSend apiKey outcome st)) = False"
proof (cases "falsy apiKey")
  case True
  show ?thesis by (simp add: send_no_key [OF assms True])
next
  case False
  show ?thesis by (simp add: send_issued [OF assms False] isTyping_resume)
qed

lemma input_send:
  assumes "trim (input st) \<noteq> []" "\<not> isTyping st"
  shows "input (state (handleSend apiKey outcome st)) = []"
proof (cases "falsy apiKey")
  case True
  show ?thesis by (simp add: send_no_key [OF assms True] push_def)
next
  case False
  show ?thesis by (simp add: send_issued [OF assms False] input_resume push_def)
qed

lemma prefix_sync: "prefix (messages st) (messages (fst (handleSend_sync apiKey st)))"
  by (simp add: handleSend_sync_def Let_def push_def)

lemma prefix_step: "prefix (messages st) (messages (chat_step apiKey st ev))"
  by (cases ev) (simp_all add: prefix_sync messages_resume)

lemma prefix_foldl:
  "prefix (messages st) (messages (foldl (chat_step apiKey) st events))"
proof (induction events arbitrary: st)
  case Nil
  show ?case by simp
next
  case (Cons ev events)
  have "prefix (messages st) (messages (chat_step apiKey st ev))" by (rule prefix_step)
  also have "prefix \<dots> (messages (foldl (chat_step apiKey) (chat_step apiKey st ev) events))"
    by (rule Cons.IH)
  finally show ?case by simp
qed

lemma prefix_send: "prefix (messages st) (messages (state (handleSend apiKey outcome st)))"
proof (cases "trim (input st) = [] \<or> isTyping st")
  case True
  then show ?thesis by (simp add: send_rejected)
next
  case False
  then show ?thesis by (simp add: messages_send)
qed

lemma trim_hello: "trim ''hello'' = ''hello''"
  by (simp add: trim_def isWhiteSpace_def)

text \<open>
  Claim C2. A submit that is accepted (the trimmed input is not empty and no request is
  in flight) appends the user's message and then exactly one assistant message. When the
  credential is missing, the call is rejected or the response cannot be read, that
  message is the fixed fallback text, whatever the error was; when the call returns
  the empty text, it is the fixed apology; when it returns a text, it is that text.
\<close>
theorem chat_fallback:
  assumes "trim (input st) \<noteq> []" and "\<not> isTyping st"
  shows "(falsy apiKey \<or> outcome = GenerateRejects \<or> outcome = TextThrows \<longrightarrow>
            messages (state (handleSend apiKey outcome st))
              = messages st @ [\<lparr>role = User, msg_text = trim (input st)\<rparr>,
                               \<lparr>role = AI, msg_text = fallback_text\<rparr>])
         \<and> (\<not> falsy apiKey \<longrightarrow>
            messages (state (handleSend apiKey (Text []) st))
              = messages st @ [\<lparr>role = User, msg_text = trim (input st)\<rparr>,
                               \<lparr>role = AI, msg_text = glitch_text\<rparr>])
         \<and> (\<not> falsy apiKey \<and> t \<noteq> [] \<longrightarrow>
            messages (state (handleSend apiKey (Text t) st))
              = messages st @ [\<lparr>role = User, msg_text = trim (input st)\<rparr>,
                               \<lparr>role = AI, msg_text = t\<rparr>])
         \<and> length (filter (\<lambda>m. role m = AI) (messages (state (handleSend apiKey outcome st))))
              = length (filter (\<lambda>m. role m = AI) (messages st)) + 1"
proof -
  have fails: "falsy apiKey \<or> outcome = GenerateRejects \<or> outcome = TextThrows \<longrightarrow>
            messages (state (handleSend apiKey outcome st))
              = messages st @ [\<lparr>role = User, msg_text = trim (input st)\<rparr>,
                               \<lparr>role = AI, msg_text = fallback_text\<rparr>]"
    by (auto simp: messages_send [OF assms])
  have empty: "\<not> falsy apiKey \<longrightarrow>
            messages (state (handleSend apiKey (Text []) st))
              = messages st @ [\<lparr>role = User, msg_text = trim (input st)\<rparr>,
                               \<lparr>role = AI, msg_text = glitch_text\<rparr>]"
    by (simp add: messages_send [OF assms])
  have given: "\<not> falsy apiKey \<and> t \<noteq> [] \<longrightarrow>
            messages (state (handleSend apiKey (Text t) st))
              = messages st @ [\<lparr>role = User, msg_text = trim (input st)\<rparr>,
                               \<lparr>role = AI, msg_text = t\<rparr>]"
    by (simp add: messages_send [OF assms])
  have one: "length (filter (\<lambda>m. role m = AI) (messages (state (handleSend apiKey outcome st))))
              = length (filter (\<lambda>m. role m = AI) (messages st)) + 1"
    by (simp add: messages_send [OF assms])
  show ?thesis using fails empty given one by blast
qed

lemma trim_question: "trim (input (typed ''What is ROS?'')) = ''What is ROS?''"
  by (simp add: typed_def trim_def isWhiteSpace_def)

text \<open>Claim C2 at the question \<open>What is ROS?\<close> typed into the fresh widget: without a
  credential, with an empty reply, and with a reply.\<close>
theorem chat_fallback_witness:
  "trim (input (typed ''What is ROS?'')) \<noteq> [] \<and> \<not> isTyping (typed ''What is ROS?'')
   \<and> messages (state (handleSend None (Text ''ROS is a robotics middleware.'') (typed ''What is ROS?'')))
       = [seed_message, \<lparr>role = User, msg_text = ''What is ROS?''\<rparr>,
          \<lparr>role = AI, msg_text = fallback_text\<rparr>]
   \<and> messages (state (handleSend (Some ''key'') (Text []) (typed ''What is ROS?'')))
       = [seed_message, \<lparr>role = User, msg_text = ''What is ROS?''\<rparr>,
          \<lparr>role = AI, msg_text = glitch_text\<rparr>]
   \<and> messages (state (handleSend (Some ''key'') (Text ''A robotics middleware.'') (typed ''What is ROS?'')))
       = [seed_message, \<lparr>role = User, msg_text = ''What is ROS?''\<rparr>,
          \<lparr>role = AI, msg_text = ''A robotics middleware.''\<rparr>]"
proof -
  have a: "trim (input (typed ''What is ROS?'')) \<noteq> []" by (simp add: trim_question)
  have b: "\<not> isTyping (typed ''What is ROS?'')" by (simp add: typed_def AIChat_init_def)
  have m: "messages (typed ''What is ROS?'') = [seed_message]"
    by (simp add: typed_def AIChat_init_def)
  have k: "falsy None" "\<not> falsy (Some ''key'')" by (simp_all add: falsy_def)
  show ?thesis
    using chat_fallback [OF a b, of None "Text ''ROS is a robotics middleware.''"]
      chat_fallback [OF a b, of "Some ''key''" GenerateRejects "''A robotics middleware.''"] a b k
    by (simp add: trim_question m)
qed

text \<open>
  Claim C4. A submit whose input is empty or consists of white space, and a submit while
  a request is in flight, changes nothing: the state, and so the transcript and its
  length, is the state before, no request is issued and nothing is logged.
\<close>
theorem chat_noop:
  assumes "(\<forall>c\<in>set (input st). isWhiteSpace c) \<or> isTyping st"
  shows "handleSend apiKey outcome st = \<lparr>state = st, requests = [], console = []\<rparr>
         \<and> handleSend_sync apiKey st = (st, Returned, [])
         \<and> chat_step apiKey st Submit = st
         \<and> length (messages (state (handleSend apiKey outcome st))) = length (messages st)"
proof -
  from assms have rejected: "trim (input st) = [] \<or> isTyping st"
    by (simp add: trim_Nil_iff)
  then show ?thesis
    by (simp add: send_rejected sync_rejected)
qed

text \<open>Claim C4 at an input of three spaces, at a second submit while the first question
  is in flight, and at the empty input of the fresh widget.\<close>
theorem chat_noop_witness:
  "list_all isWhiteSpace (input (typed ''   ''))
   \<and> handleSend (Some ''key'') (Text ''Hi'') (typed ''   '')
       = \<lparr>state = typed ''   '', requests = [], console = []\<rparr>
   \<and> isTyping pending_chat \<and> trim (input pending_chat) \<noteq> []
   \<and> handleSend (Some ''key'') (Text ''Hi'') pending_chat
       = \<lparr>state = pending_chat, requests = [], console = []\<rparr>
   \<and> handleSend (Some ''key'') (Text ''Hi'') AIChat_init
       = \<lparr>state = AIChat_init, requests = [], console = []\<rparr>"
proof -
  have blank: "\<forall>c\<in>set (input (typed ''   '')). isWhiteSpace c"
    by (simp add: typed_def isWhiteSpace_def)
  have empty: "\<forall>c\<in>set (input AIChat_init). isWhiteSpace c"
    by (simp add: AIChat_init_def)
  have q: "trim ''What is ROS?'' \<noteq> []" by (simp add: trim_def isWhiteSpace_def)
  have pending: "isTyping pending_chat"
    using q by (simp add: pending_chat_def typed_def AIChat_init_def handleSend_sync_def
        falsy_def Let_def push_def)
  have typed_again: "trim (input pending_chat) \<noteq> []"
    by (simp add: pending_chat_def trim_def isWhiteSpace_def)
  show ?thesis
    using chat_noop [of "typed ''   ''" "Some ''key''" "Text ''Hi''"]
      chat_noop [of pending_chat "Some ''key''" "Text ''Hi''"]
      chat_noop [of AIChat_init "Some ''key''" "Text ''Hi''"]
      blank empty pending typed_again
    by (simp add: list_all_iff)
qed

text \<open>
  Claim C7. The transcript starts as the one introductory message. Every event of the
  widget and every whole run of \<open>handleSend\<close> leaves the transcript it found as a prefix
  of the new one, so after any sequence of events the introductory message is still
  first. Sending \<open>hello\<close> from the fresh widget, the call failing for want of a
  credential, by rejection or by an unreadable response, gives the three messages
  introduction, the user's \<open>hello\<close>, the fallback.
\<close>
theorem transcript_invariant:
  "messages AIChat_init = [seed_message]
   \<and> prefix (messages st) (messages (chat_step apiKey st ev))
   \<and> prefix (messages st) (messages (state (handleSend apiKey outcome st)))
   \<and> prefix [seed_message] (messages (chat_run apiKey events))
   \<and> messages (state (handleSend None outcome (typed ''hello'')))
       = [seed_message, \<lparr>role = User, msg_text = ''hello''\<rparr>, \<lparr>role = AI, msg_text = fallback_text\<rparr>]
   \<and> messages (state (handleSend apiKey GenerateRejects (typed ''hello'')))
       = [seed_message, \<lparr>role = User, msg_text = ''hello''\<rparr>, \<lparr>role = AI, msg_text = fallback_text\<rparr>]
   \<and> messages (state (handleSend apiKey TextThrows (typed ''hello'')))
       = [seed_message, \<lparr>role = User, msg_text = ''hello''\<rparr>, \<lparr>role = AI, msg_text = fallback_text\<rparr>]"
proof -
  have init: "messages AIChat_init = [seed_message]" by (simp add: AIChat_init_def)
  have run: "prefix [seed_message] (messages (chat_run apiKey events))"
    using prefix_foldl [of AIChat_init apiKey events] by (simp add: chat_run_def init)
  have a: "trim (input (typed ''hello'')) \<noteq> []" by (simp add: typed_def trim_hello)
  have b: "\<not> isTyping (typed ''hello'')" by (simp add: typed_def AIChat_init_def)
  have m: "messages (typed ''hello'') = [seed_message]" by (simp add: typed_def init)
  have i: "trim (input (typed ''hello'')) = ''hello''" by (simp add: typed_def trim_hello)
  have s1: "messages (state (handleSend None outcome (typed ''hello'')))
       = [seed_message, \<lparr>role = User, msg_text = ''hello''\<rparr>, \<lparr>role = AI, msg_text = fallback_text\<rparr>]"
    by (simp add: messages_send [OF a b] m i falsy_def)
  have s2: "messages (state (handleSend apiKey GenerateRejects (typed ''hello'')))
       = [seed_message, \<lparr>role = User, msg_text = ''hello''\<rparr>, \<lparr>role = AI, msg_text = fallback_text\<rparr>]"
    by (simp add: messages_send [OF a b] m i)
  have s3: "messages (state (handleSend apiKey TextThrows (typed ''hello'')))
       = [seed_message, \<lparr>role = User, msg_text = ''hello''\<rparr>, \<lparr>role = AI, msg_text = fallback_text\<rparr>]"
    by (simp add: messages_send [OF a b] m i)
  show ?thesis
    using init prefix_step prefix_send run s1 s2 s3 by blast
qed

text \<open>
  Claim C8. After an accepted submit has run to its end, \<open>isTyping\<close> is false on
  every path: the missing credential, a rejected call, an unreadable response, a
  returned text. The continuation after the call clears the flag from whatever state it
  finds. Up to the call the flag is set exactly when a request was issued.
\<close>
theorem pending_cleared:
  assumes "trim (input st) \<noteq> []" and "\<not> isTyping st"
  shows "isTyping (state (handleSend apiKey outcome st)) = False
         \<and> isTyping (fst (handleSend_resume outcome st')) = False
         \<and> isTyping (fst (handleSend_sync apiKey st)) = (\<not> falsy apiKey)"
proof -
  have sync: "isTyping (fst (handleSend_sync apiKey st)) = (\<not> falsy apiKey)"
    using assms by (simp add: handleSend_sync_def Let_def push_def)
  show ?thesis
    by (simp add: isTyping_send [OF assms] isTyping_resume sync)
qed

text \<open>Claim C8 at the question \<open>What is ROS?\<close>, with and without a credential.\<close>
theorem pending_cleared_witness:
  "trim (input (typed ''What is ROS?'')) \<noteq> [] \<and> \<not> isTyping (typed ''What is ROS?'')
   \<and> isTyping (fst (handleSend_sync (Some ''key'') (typed ''What is ROS?'')))
   \<and> \<not> isTyping (state (handleSend (Some ''key'') TextThrows (typed ''What is ROS?'')))
   \<and> \<not> isTyping (state (handleSend None TextThrows (typed ''What is ROS?'')))
   \<and> \<not> isTyping (state (handleSend (Some ''key'') (Text ''Hi'') (typed ''What is ROS?'')))"
proof -
  have a: "trim (input (typed ''What is ROS?'')) \<noteq> []" by (simp add: trim_question)
  have b: "\<not> isTyping (typed ''What is ROS?'')" by (simp add: typed_def AIChat_init_def)
  have k: "\<not> falsy (Some ''key'')" by (simp add: falsy_def)
  show ?thesis
    using pending_cleared [OF a b, of "Some ''key''" TextThrows]
      pending_cleared [OF a b, of None TextThrows]
      pending_cleared [OF a b, of "Some ''key''" "Text ''Hi''"] a b k
    by simp
qed

text \<open>
  Claim C10. An accepted submit empties the input before the call settles: at the
  moment \<open>handleSend\<close> waits for the generation call the input is empty, the transcript
  has gained the trimmed input as a user message, and the prompt of the request is the
  trimmed input. The continuation does not touch the input, so the text is not put back
  when the call fails.
\<close>
theorem input_cleared:
  assumes "trim (input st) \<noteq> []" and "\<not> isTyping st"
  shows "input (fst (handleSend_sync apiKey st)) = []
         \<and> messages (fst (handleSend_sync apiKey st))
             = messages st @ \<lparr>role = User, msg_text = trim (input st)\<rparr>
                 # (if falsy apiKey then [\<lparr>role = AI, msg_text = fallback_text\<rparr>] else [])
         \<and> fst (snd (handleSend_sync apiKey st))
             = (if falsy apiKey then Returned else Awaiting (trim (input st)))
         \<and> input (fst (handleSend_resume outcome st')) = input st'
         \<and> input (state (handleSend apiKey outcome st)) = []
         \<and> requests (handleSend apiKey outcome st)
             = (if falsy apiKey then [] else [trim (input st)])"
proof -
  have sync: "input (fst (handleSend_sync apiKey st)) = []
         \<and> messages (fst (handleSend_sync apiKey st))
             = messages st @ \<lparr>role = User, msg_text = trim (input st)\<rparr>
                 # (if falsy apiKey then [\<lparr>role = AI, msg_text = fallback_text\<rparr>] else [])
         \<and> fst (snd (handleSend_sync apiKey st))
             = (if falsy apiKey then Returned else Awaiting (trim (input st)))"
    using assms by (simp add: handleSend_sync_def Let_def push_def)
  have req: "requests (handleSend apiKey outcome st)
             = (if falsy apiKey then [] else [trim (input st)])"
    using send_no_key [OF assms, of apiKey outcome] send_issued [OF assms, of apiKey outcome]
    by (cases "falsy apiKey") simp_all
  show ?thesis
    using sync req by (simp add: input_resume input_send [OF assms])
qed

text \<open>Claim C10 at the input \<open>hello ROS\<close> with two spaces on either side.\<close>
theorem input_cleared_witness:
  "trim (input (typed ''  hello ROS  '')) \<noteq> [] \<and> \<not> isTyping (typed ''  hello ROS  '')
   \<and> input (fst (handleSend_sync (Some ''key'') (typed ''  hello ROS  ''))) = []
   \<and> messages (fst (handleSend_sync (Some ''key'') (typed ''  hello ROS  '')))
       = [seed_message, \<lparr>role = User, msg_text = ''hello ROS''\<rparr>]
   \<and> fst (snd (handleSend_sync (Some ''key'') (typed ''  hello ROS  ''))) = Awaiting ''hello ROS''
   \<and> input (state (handleSend (Some ''key'') GenerateRejects (typed ''  hello ROS  ''))) = []"
proof -
  have t: "trim (input (typed ''  hello ROS  '')) = ''hello ROS''"
    by (simp add: typed_def trim_def isWhiteSpace_def)
  have a: "trim (input (typed ''  hello ROS  '')) \<noteq> []" by (simp add: t)
  have b: "\<not> isTyping (typed ''  hello ROS  '')" by (simp add: typed_def AIChat_init_def)
  have m: "messages (typed ''  hello ROS  '') = [seed_message]"
    by (simp add: typed_def AIChat_init_def)
  have k: "\<not> falsy (Some ''key'')" by (simp add: falsy_def)
  show ?thesis
    using input_cleared [OF a b, of "Some ''key''" GenerateRejects] a b k
    by (simp add: t m)
qed

section \<open>Properties of the contact form\<close>

text \<open>
  Claim C3 states that a failure response without a message shows the fixed
  network-error text. It shows another text, \<open>Something went wrong. Please try again.\<close>,
  which is not the text shown for a network error.
\<close>
theorem form_absent_message_counterexample:
  "errorMessage (handleSubmit (Reply False None) filled_form) = ''Something went wrong. Please try again.''
   \<and> errorMessage (handleSubmit (Reply False None) filled_form) \<noteq> network_error_text
   \<and> errorMessage (handleSubmit (Reply False None) filled_form)
       \<noteq> errorMessage (handleSubmit FetchFails filled_form)"
  by (simp add: handleSubmit_def handleSubmit_begin_def or_else_def generic_error_text_def
      network_error_text_def)

text \<open>
  Claim C3, amended. A response with \<open>success\<close> true puts the form into \<open>Success\<close> and
  resets the fields of the mounted form. A response with \<open>success\<close> false puts it into
  \<open>Error\<close> and leaves the fields as they are; the text shown is the response's message
  when there is a non-empty one, and the fixed text \<open>Something went wrong. Please try
  again.\<close> otherwise. A rejected request and an unreadable body put the form into
  \<open>Error\<close> with the fixed network-error text and leave the fields as they are.
\<close>
theorem form_submit_outcome:
  "formState (handleSubmit (Reply True m) st) = Success
   \<and> formRef (handleSubmit (Reply True m) st) = map_option (\<lambda>form. blank_fields) (formRef st)
   \<and> formState (handleSubmit (Reply False m) st) = Error
   \<and> errorMessage (handleSubmit (Reply False (Some x)) st)
       = (if x = [] then generic_error_text else x)
   \<and> errorMessage (handleSubmit (Reply False None) st) = generic_error_text
   \<and> formRef (handleSubmit (Reply False m) st) = formRef st
   \<and> handleSubmit FetchFails st = st\<lparr>formState := Error, errorMessage := network_error_text\<rparr>
   \<and> handleSubmit JsonFails st = st\<lparr>formState := Error, errorMessage := network_error_text\<rparr>
   \<and> formRef (handleSubmit FetchFails st) = formRef st
   \<and> formRef (handleSubmit JsonFails st) = formRef st"
  by (simp add: handleSubmit_def handleSubmit_begin_def or_else_def Let_def split: option.splits)

end
